theory Spec2Isabelle
  imports Complex_Main
begin

section \<open>The calculation engine of the LLM token budget planner\<close>

text \<open>
  The development embeds the \<^verbatim>\<open>Calculator\<close> module of \<^verbatim>\<open>src/app.js\<close>: the internal
  helper \<^verbatim>\<open>calculateCost\<close> (lines 257-300) and the entry point \<^verbatim>\<open>calculateAll\<close>
  (lines 133-248).

  Numbers. A JavaScript number is an IEEE 754 double. The embedding reads every number as
  a \<^typ>\<open>real\<close> and every operator as the exact operation, so rounding, infinities and
  \<^verbatim>\<open>NaN\<close> are outside the model. Each division of the source is either by the
  literal 1000 or guarded by a test that the divisor is positive, so the totality of
  division in HOL is never relied on.

  Missing fields. Where the source substitutes a default (\<^verbatim>\<open>x || d\<close>, \<^verbatim>\<open>x ?? d\<close>)
  the field is an \<open>option\<close>, with \<open>None\<close> for a field that is absent; a field the source
  reads without a default is a plain value.
\<close>

subsection \<open>Data model\<close>

text \<open>
  A vendor plan, as in \<^verbatim>\<open>DEFAULT_STATE.vendor_plans\<close>. The source field \<^verbatim>\<open>id\<close> is
  \<open>plan_id\<close> here.
\<close>

record VendorPlan =
  plan_id :: string
  vendor :: string
  plan :: string
  currency :: string
  price_prompt_per_1k :: real
  price_completion_per_1k :: real
  monthly_commit_credit :: "real option"
  free_tier_tokens :: "real option"
  overage_multiplier :: "real option"

record AlertThresholds =
  warn :: real
  critical :: real

text \<open>
  An environment, as in \<^verbatim>\<open>DEFAULT_STATE.environments\<close>. The source field \<^verbatim>\<open>id\<close> is
  \<open>env_id\<close> here.
\<close>

record Environment =
  env_id :: string
  env_name :: string
  requests_per_day :: real
  avg_tokens_per_request :: real
  context_tokens :: real
  cache_hit_rate :: real
  cache_savings_factor :: "real option"
  completion_share :: "real option"
  days_per_month :: real
  budget_currency :: string
  monthly_budget :: real
  alert_thresholds :: "AlertThresholds option"

text \<open>
  The argument of \<^verbatim>\<open>calculateAll\<close>. \<^verbatim>\<open>plan_assignment\<close> is an object used as a
  dictionary from environment ids to plan ids.
\<close>

record AppState =
  environments :: "Environment list"
  vendor_plans :: "VendorPlan list"
  plan_assignment :: "string \<rightharpoonup> string"

text \<open>The object returned by \<^verbatim>\<open>calculateCost\<close>.\<close>

record CostResult =
  raw_cost :: real
  cost_after_free_tier :: real
  final_cost :: real

text \<open>
  The two shapes of object pushed to \<^verbatim>\<open>resultsPerEnv\<close>. The fields of the error object
  carry the prefix \<open>e_\<close>, those of \<^verbatim>\<open>envResult\<close> the prefix \<open>r_\<close>, and those of
  \<^verbatim>\<open>totals\<close> the prefix \<open>t_\<close>, since a field name is global in HOL.
\<close>

record ErrorResult =
  e_env_id :: string
  e_env_name :: string
  e_error :: string
  e_status :: string

record EnvResult =
  r_env_id :: string
  r_env_name :: string
  r_plan_name :: string
  r_currency :: string
  r_budget :: real
  r_budget_currency :: string
  r_monthly_tokens :: real
  r_prompt_tokens :: real
  r_completion_tokens :: real
  r_raw_cost :: real
  r_cost_after_free_tier :: real
  r_final_cost :: real
  r_utilization :: real
  r_status :: string
  r_suggestion :: string

datatype PerEnv = Err ErrorResult | Ok EnvResult

record Totals =
  t_total_tokens :: real
  t_prompt_tokens :: real
  t_completion_tokens :: real
  t_raw_cost :: real
  t_final_cost :: real
  t_budget :: real

record Results =
  perEnv :: "PerEnv list"
  totals :: Totals

subsection \<open>Default substitution\<close>

text \<open>
  \<^verbatim>\<open>x || d\<close> on a numeric field: the default replaces an absent field and the falsy
  number 0.
\<close>

definition falsy_or :: "real option \<Rightarrow> real \<Rightarrow> real" where
  "falsy_or x d = (case x of None \<Rightarrow> d | Some v \<Rightarrow> if v = 0 then d else v)"

text \<open>\<^verbatim>\<open>x ?? d\<close>: the default replaces an absent field only.\<close>

definition nullish :: "'a option \<Rightarrow> 'a \<Rightarrow> 'a" where
  "nullish x d = (case x of None \<Rightarrow> d | Some v \<Rightarrow> v)"

subsection \<open>\<^verbatim>\<open>calculateCost\<close>\<close>

definition calculateCost :: "real \<Rightarrow> real \<Rightarrow> VendorPlan \<Rightarrow> CostResult" where
  "calculateCost prompt_tokens completion_tokens p =
    (let total_tokens = prompt_tokens + completion_tokens;
         free_tier = falsy_or (free_tier_tokens p) 0;
         (billable_prompt_tokens, billable_completion_tokens) =
           (if free_tier > 0 \<and> total_tokens > 0 then
              (let tokens_after_free = max 0 (total_tokens - free_tier);
                   free_tier_ratio = tokens_after_free / total_tokens
               in (prompt_tokens * free_tier_ratio, completion_tokens * free_tier_ratio))
            else (prompt_tokens, completion_tokens));
         cost_after_free_tier' =
           billable_prompt_tokens / 1000 * price_prompt_per_1k p +
           billable_completion_tokens / 1000 * price_completion_per_1k p;
         raw_cost' =
           prompt_tokens / 1000 * price_prompt_per_1k p +
           completion_tokens / 1000 * price_completion_per_1k p;
         commit = falsy_or (monthly_commit_credit p) 0;
         final_cost' =
           (if commit > 0 then
              (let overage_amount = max 0 (cost_after_free_tier' - commit);
                   overage_multiplier' = falsy_or (overage_multiplier p) 1;
                   overage_cost = overage_amount * overage_multiplier'
               in min cost_after_free_tier' commit + overage_cost)
            else cost_after_free_tier')
     in \<lparr>raw_cost = raw_cost',
         cost_after_free_tier = cost_after_free_tier',
         final_cost = final_cost'\<rparr>)"

subsection \<open>The loop body of \<^verbatim>\<open>calculateAll\<close>\<close>

text \<open>
  Step 1 of the loop body (lines 164-166), named so that it can be stated on its own; the
  value is local to the loop in the source and is not part of the result object.
\<close>

definition effective_tokens_per_request :: "Environment \<Rightarrow> real" where
  "effective_tokens_per_request env =
    (let cache_savings_factor' = nullish (cache_savings_factor env) 0.8
     in avg_tokens_per_request env +
        context_tokens env * (1 - cache_hit_rate env * cache_savings_factor'))"

text \<open>
  The text of the suggestion is built with \<^verbatim>\<open>Number.prototype.toFixed\<close>, which belongs to
  the JavaScript runtime and not to this program. It is the parameter \<open>toFixed\<close> of the
  model (the number first, the count of fraction digits second), so whatever is proved
  holds for every rendering of numbers.

  Steps 2 to 7 (lines 169-233) for an environment whose plan \<open>p\<close> was found. The two
  constants \<^verbatim>\<open>billable_prompt_1k\<close> and \<^verbatim>\<open>billable_completion_1k\<close> of step 4 are never
  read in the source and are left out.
\<close>

definition envResult :: "(real \<Rightarrow> nat \<Rightarrow> string) \<Rightarrow> Environment \<Rightarrow> VendorPlan \<Rightarrow> EnvResult" where
  "envResult toFixed env p =
    (let monthly_tokens =
           requests_per_day env * effective_tokens_per_request env * days_per_month env;
         completion_share' = nullish (completion_share env) 0.4;
         prompt_share = 1 - completion_share';
         prompt_tokens = monthly_tokens * prompt_share;
         completion_tokens = monthly_tokens * completion_share';
         costResult = calculateCost prompt_tokens completion_tokens p;
         utilization =
           (if monthly_budget env > 0 then final_cost costResult / monthly_budget env else 0);
         thresholds = nullish (alert_thresholds env) \<lparr>warn = 0.8, critical = 1.0\<rparr>;
         status =
           (if utilization \<ge> critical thresholds then ''RED''
            else if utilization \<ge> warn thresholds then ''AMBER''
            else ''GREEN'');
         suggestion =
           (if status = ''RED'' \<or> status = ''AMBER'' then
              (let shortfall = final_cost costResult - monthly_budget env;
                   suggestion0 =
                     (if shortfall > 0 then
                        ''Budget shortfall of '' @ currency p @ '' '' @ toFixed shortfall 2 @ ''. ''
                      else []);
                   target_cost = monthly_budget env * warn thresholds;
                   percent_to_reduce =
                     (if final_cost costResult > 0 then
                        (final_cost costResult - target_cost) / final_cost costResult
                      else 0)
               in if percent_to_reduce > 0 then
                    suggestion0 @ ''To reach safety (sub-'' @ toFixed (warn thresholds * 100) 0 @
                    ''%), reduce token usage by ~'' @ toFixed (percent_to_reduce * 100) 0 @
                    ''% or raise budget.''
                  else suggestion0)
            else [])
     in \<lparr>r_env_id = env_id env,
         r_env_name = env_name env,
         r_plan_name = vendor p @ '' - '' @ plan p,
         r_currency = currency p,
         r_budget = monthly_budget env,
         r_budget_currency = budget_currency env,
         r_monthly_tokens = monthly_tokens,
         r_prompt_tokens = prompt_tokens,
         r_completion_tokens = completion_tokens,
         r_raw_cost = raw_cost costResult,
         r_cost_after_free_tier = cost_after_free_tier costResult,
         r_final_cost = final_cost costResult,
         r_utilization = utilization,
         r_status = status,
         r_suggestion = suggestion\<rparr>)"

text \<open>
  \<^verbatim>\<open>new Map(vendor_plans.map(p => [p.id, p]))\<close>: the entries are set in list order, so of
  two plans with one id the later one is kept.
\<close>

definition plansMap :: "VendorPlan list \<Rightarrow> (string \<rightharpoonup> VendorPlan)" where
  "plansMap plans = fold (\<lambda>p m. m(plan_id p \<mapsto> p)) plans Map.empty"

text \<open>
  Lines 148-149: \<^verbatim>\<open>plan_assignment[env.id]\<close> is \<^verbatim>\<open>undefined\<close> for an environment
  without an entry, and \<^verbatim>\<open>plansMap.get\<close> is \<^verbatim>\<open>undefined\<close> for \<^verbatim>\<open>undefined\<close> and for
  every string that is not the id of a plan.
\<close>

definition lookup_plan ::
  "(string \<rightharpoonup> VendorPlan) \<Rightarrow> (string \<rightharpoonup> string) \<Rightarrow> Environment \<Rightarrow> VendorPlan option" where
  "lookup_plan pm assignment env =
    (case assignment (env_id env) of None \<Rightarrow> None | Some planId \<Rightarrow> pm planId)"

text \<open>The object pushed for an environment without a plan (lines 153-158).\<close>

definition errorResult :: "Environment \<Rightarrow> ErrorResult" where
  "errorResult env =
    \<lparr>e_env_id = env_id env,
     e_env_name = env_name env,
     e_error = ''No valid plan assigned.'',
     e_status = ''N/A''\<rparr>"

text \<open>The six additions to \<^verbatim>\<open>totals\<close> (lines 238-244).\<close>

definition add_totals :: "Totals \<Rightarrow> EnvResult \<Rightarrow> Totals" where
  "add_totals t r =
    \<lparr>t_total_tokens = t_total_tokens t + r_monthly_tokens r,
     t_prompt_tokens = t_prompt_tokens t + r_prompt_tokens r,
     t_completion_tokens = t_completion_tokens t + r_completion_tokens r,
     t_raw_cost = t_raw_cost t + r_raw_cost r,
     t_final_cost = t_final_cost t + r_final_cost r,
     t_budget = t_budget t + r_budget r\<rparr>"

subsection \<open>\<^verbatim>\<open>calculateAll\<close>\<close>

text \<open>
  The \<^verbatim>\<open>for\<close> loop over the environments, with the two accumulators \<^verbatim>\<open>resultsPerEnv\<close>
  and \<^verbatim>\<open>totals\<close> passed along. The first branch is the \<^verbatim>\<open>continue\<close> of line 159.
\<close>

fun calculateAll_loop ::
  "(real \<Rightarrow> nat \<Rightarrow> string) \<Rightarrow> (string \<rightharpoonup> VendorPlan) \<Rightarrow> (string \<rightharpoonup> string) \<Rightarrow>
   Environment list \<Rightarrow> PerEnv list \<Rightarrow> Totals \<Rightarrow> PerEnv list \<times> Totals" where
  "calculateAll_loop toFixed pm assignment [] resultsPerEnv t = (resultsPerEnv, t)"
| "calculateAll_loop toFixed pm assignment (env # envs) resultsPerEnv t =
    (case lookup_plan pm assignment env of
       None \<Rightarrow>
         calculateAll_loop toFixed pm assignment envs (resultsPerEnv @ [Err (errorResult env)]) t
     | Some p \<Rightarrow>
         (let r = envResult toFixed env p
          in calculateAll_loop toFixed pm assignment envs (resultsPerEnv @ [Ok r])
               (add_totals t r)))"

definition zero_totals :: Totals where
  "zero_totals =
    \<lparr>t_total_tokens = 0, t_prompt_tokens = 0, t_completion_tokens = 0,
     t_raw_cost = 0, t_final_cost = 0, t_budget = 0\<rparr>"

definition calculateAll :: "(real \<Rightarrow> nat \<Rightarrow> string) \<Rightarrow> 'a AppState_scheme \<Rightarrow> Results" where
  "calculateAll toFixed state =
    (let (resultsPerEnv, t) =
           calculateAll_loop toFixed (plansMap (vendor_plans state)) (plan_assignment state)
             (environments state) [] zero_totals
     in \<lparr>perEnv = resultsPerEnv, totals = t\<rparr>)"

subsection \<open>A rendering of numbers for running the model\<close>

text \<open>
  To run \<open>calculateAll\<close> on a concrete state a rendering has to be supplied. The one below
  follows the algorithm of \<^verbatim>\<open>Number.prototype.toFixed\<close> for a magnitude below \<open>10^21\<close>,
  read over the reals: the sign, then the integer \<open>n\<close> nearest to \<open>\<bar>x\<bar> * 10^f\<close> (the
  larger one of two), written in decimal, padded with zeros to \<open>f + 1\<close> digits, with a
  point before the last \<open>f\<close> digits.
\<close>

fun digits :: "nat \<Rightarrow> string" where
  "digits n =
    (if n < 10 then [''0123456789'' ! n]
     else digits (n div 10) @ [''0123456789'' ! (n mod 10)])"

declare digits.simps [simp del]

definition toFixed_decimal :: "real \<Rightarrow> nat \<Rightarrow> string" where
  "toFixed_decimal x f =
    (let s = (if x < 0 then ''-'' else []);
         n = nat \<lfloor>\<bar>x\<bar> * 10 ^ f + 1 / 2\<rfloor>;
         m = digits n;
         m' = (if f = 0 then m
               else (let padded = (if length m \<le> f
                                   then replicate (f + 1 - length m) (CHR ''0'') @ m
                                   else m);
                         k = length padded
                     in take (k - f) padded @ ''.'' @ drop (k - f) padded))
     in s @ m')"

subsection \<open>The default state\<close>

text \<open>\<^verbatim>\<open>DEFAULT_STATE\<close> (lines 16-75), the test scenario the application starts from.\<close>

definition plan_1 :: VendorPlan where
  "plan_1 =
    \<lparr>plan_id = ''plan_1'', vendor = ''OpenAI'', plan = ''Test-Plan (from prompt)'',
     currency = ''EUR'', price_prompt_per_1k = 0.002, price_completion_per_1k = 0.006,
     monthly_commit_credit = Some 0, free_tier_tokens = Some 0,
     overage_multiplier = Some 1.0\<rparr>"

definition plan_2 :: VendorPlan where
  "plan_2 =
    \<lparr>plan_id = ''plan_2'', vendor = ''Anthropic'', plan = ''Opus'',
     currency = ''USD'', price_prompt_per_1k = 0.015, price_completion_per_1k = 0.075,
     monthly_commit_credit = Some 0, free_tier_tokens = Some 0,
     overage_multiplier = Some 1.0\<rparr>"

definition env_1 :: Environment where
  "env_1 =
    \<lparr>env_id = ''env_1'', env_name = ''Production (Test Scenario)'',
     requests_per_day = 100, avg_tokens_per_request = 1000, context_tokens = 200,
     cache_hit_rate = 0.5, cache_savings_factor = Some 0.8, completion_share = Some 0.4,
     days_per_month = 30, budget_currency = ''EUR'', monthly_budget = 20,
     alert_thresholds = Some \<lparr>warn = 0.8, critical = 1.0\<rparr>\<rparr>"

definition env_2 :: Environment where
  "env_2 =
    \<lparr>env_id = ''env_2'', env_name = ''Staging'',
     requests_per_day = 50, avg_tokens_per_request = 2000, context_tokens = 1000,
     cache_hit_rate = 0.1, cache_savings_factor = Some 0.8, completion_share = Some 0.3,
     days_per_month = 22, budget_currency = ''USD'', monthly_budget = 50,
     alert_thresholds = Some \<lparr>warn = 0.8, critical = 1.0\<rparr>\<rparr>"

definition DEFAULT_STATE :: AppState where
  "DEFAULT_STATE =
    \<lparr>environments = [env_1, env_2],
     vendor_plans = [plan_1, plan_2],
     plan_assignment = [''env_1'' \<mapsto> ''plan_1'', ''env_2'' \<mapsto> ''plan_2'']\<rparr>"

subsection \<open>Two views of the loop, for the proofs\<close>

text \<open>
  What one iteration pushes to \<^verbatim>\<open>resultsPerEnv\<close>, and what it does to \<^verbatim>\<open>totals\<close>. Both
  are read off \<open>calculateAll_loop\<close>; the lemma \<open>calculateAll_loop_eq\<close> below shows that
  the loop is the map of the first and the left fold of the second.
\<close>

definition outcome ::
  "(real \<Rightarrow> nat \<Rightarrow> string) \<Rightarrow> (string \<rightharpoonup> VendorPlan) \<Rightarrow> (string \<rightharpoonup> string) \<Rightarrow>
   Environment \<Rightarrow> PerEnv" where
  "outcome toFixed pm assignment env =
    (case lookup_plan pm assignment env of
       None \<Rightarrow> Err (errorResult env)
     | Some p \<Rightarrow> Ok (envResult toFixed env p))"

definition accumulate :: "Totals \<Rightarrow> PerEnv \<Rightarrow> Totals" where
  "accumulate t x = (case x of Err _ \<Rightarrow> t | Ok r \<Rightarrow> add_totals t r)"

text \<open>
  The ranges that section 3 of the specification gives for the numeric fields of an
  environment, as far as the sign of the token counts depends on them.
\<close>

definition env_in_range :: "Environment \<Rightarrow> bool" where
  "env_in_range env \<longleftrightarrow>
     0 \<le> requests_per_day env \<and> 0 \<le> avg_tokens_per_request env \<and>
     0 \<le> context_tokens env \<and> 0 \<le> days_per_month env \<and>
     0 \<le> cache_hit_rate env \<and> cache_hit_rate env \<le> 1 \<and>
     0 \<le> nullish (cache_savings_factor env) 0.8 \<and>
     nullish (cache_savings_factor env) 0.8 \<le> 1 \<and>
     0 \<le> nullish (completion_share env) 0.4 \<and>
     nullish (completion_share env) 0.4 \<le> 1"

text \<open>
  The signs that section 3 gives for the prices and the overage multiplier of a plan; the
  multiplier is the one that \<open>calculateCost\<close> uses, 1 for a multiplier that is absent or 0.
\<close>

definition plan_nonneg :: "VendorPlan \<Rightarrow> bool" where
  "plan_nonneg p \<longleftrightarrow>
     0 \<le> price_prompt_per_1k p \<and> 0 \<le> price_completion_per_1k p \<and>
     0 \<le> falsy_or (overage_multiplier p) 1"

subsection \<open>\<^verbatim>\<open>calculateAll\<close> on a heap of objects\<close>

text \<open>
  In JavaScript the state, the array \<^verbatim>\<open>resultsPerEnv\<close>, the object \<^verbatim>\<open>totals\<close> and the
  \<^verbatim>\<open>Map\<close> \<^verbatim>\<open>plansMap\<close> are objects that are reached by reference, and
  \<^verbatim>\<open>push\<close> and \<^verbatim>\<open>+=\<close> write to them in place. The function \<open>calculateAll\<close> above
  passes the accumulators along as values; the second model below keeps them where the
  source has them, on a heap that outlives the call, so that what a call leaves behind is
  there when the next call runs.

  The heap is the list of the objects created so far, an object's address is its index, and
  a new object goes to the end of the list. The \<^verbatim>\<open>Calculator\<close> module (lines 126-303)
  declares no variable outside its two functions, so the heap is all the state there is.
  The objects built by the object literals of lines 153-158, 214-233 and 295-299 are
  written once and then only stored, so they stay values, as does the rendering of
  numbers, which is taken to give one text for one number.
\<close>

datatype obj =
    StateObj AppState
  | ArrayObj "PerEnv list"
  | TotalsObj Totals
  | MapObj "string \<rightharpoonup> VendorPlan"

definition deref :: "obj list \<Rightarrow> nat \<Rightarrow> obj option" where
  "deref h a = (if a < length h then Some (h ! a) else None)"

definition new_obj :: "obj \<Rightarrow> obj list \<Rightarrow> nat \<times> obj list" where
  "new_obj x h = (length h, h @ [x])"

text \<open>
  \<^verbatim>\<open>resultsPerEnv.push(x)\<close>. A reference that does not lead to an array makes the call
  fail, which is the result \<open>None\<close>; the same holds for the two operations after it.
\<close>

definition push :: "nat \<Rightarrow> PerEnv \<Rightarrow> obj list \<Rightarrow> obj list option" where
  "push a x h =
    (case deref h a of
       Some (ArrayObj xs) \<Rightarrow> Some (h[a := ArrayObj (xs @ [x])])
     | _ \<Rightarrow> None)"

text \<open>The six statements \<^verbatim>\<open>totals.f += ...\<close> of lines 238-244.\<close>

definition add_to_totals :: "nat \<Rightarrow> EnvResult \<Rightarrow> obj list \<Rightarrow> obj list option" where
  "add_to_totals a r h =
    (case deref h a of
       Some (TotalsObj t) \<Rightarrow> Some (h[a := TotalsObj (add_totals t r)])
     | _ \<Rightarrow> None)"

text \<open>The table behind \<^verbatim>\<open>plansMap.get\<close>.\<close>

definition read_map :: "obj list \<Rightarrow> nat \<Rightarrow> (string \<rightharpoonup> VendorPlan) option" where
  "read_map h a = (case deref h a of Some (MapObj m) \<Rightarrow> Some m | _ \<Rightarrow> None)"

text \<open>
  The \<^verbatim>\<open>for\<close> loop, with the three references \<^verbatim>\<open>plansMap\<close>, \<^verbatim>\<open>resultsPerEnv\<close> and
  \<^verbatim>\<open>totals\<close> held in local constants and the heap passed along.
\<close>

fun calculateAll_loop_st ::
  "(real \<Rightarrow> nat \<Rightarrow> string) \<Rightarrow> nat \<Rightarrow> (string \<rightharpoonup> string) \<Rightarrow> Environment list \<Rightarrow>
   nat \<Rightarrow> nat \<Rightarrow> obj list \<Rightarrow> obj list option" where
  "calculateAll_loop_st toFixed pm_ref assignment [] results_ref totals_ref h = Some h"
| "calculateAll_loop_st toFixed pm_ref assignment (env # envs) results_ref totals_ref h =
    (case read_map h pm_ref of
       None \<Rightarrow> None
     | Some pm \<Rightarrow>
         (case lookup_plan pm assignment env of
            None \<Rightarrow>
              (case push results_ref (Err (errorResult env)) h of
                 None \<Rightarrow> None
               | Some h1 \<Rightarrow>
                   calculateAll_loop_st toFixed pm_ref assignment envs results_ref totals_ref h1)
          | Some p \<Rightarrow>
              (let r = envResult toFixed env p
               in case push results_ref (Ok r) h of
                    None \<Rightarrow> None
                  | Some h1 \<Rightarrow>
                      (case add_to_totals totals_ref r h1 of
                         None \<Rightarrow> None
                       | Some h2 \<Rightarrow>
                           calculateAll_loop_st toFixed pm_ref assignment envs
                             results_ref totals_ref h2))))"

text \<open>
  \<^verbatim>\<open>calculateAll(state)\<close>, with \<open>state_ref\<close> the reference that the caller passes. The
  three objects are created in the order of lines 135, 136 and 145. The value returned is
  the pair of references that the object literal of line 247 holds, with the heap the call
  leaves behind. A reference that does not lead to a state object makes the destructuring
  of line 134 fail. The environments, the plans and the assignment are read from the state
  object on entry; no operation of this model writes to a state object, so reading them
  again in every round of the loop would give the same.
\<close>

definition calculateAll_st ::
  "(real \<Rightarrow> nat \<Rightarrow> string) \<Rightarrow> nat \<Rightarrow> obj list \<Rightarrow> ((nat \<times> nat) \<times> obj list) option" where
  "calculateAll_st toFixed state_ref h =
    (case deref h state_ref of
       Some (StateObj state) \<Rightarrow>
         (let (results_ref, h1) = new_obj (ArrayObj []) h;
              (totals_ref, h2) = new_obj (TotalsObj zero_totals) h1;
              (pm_ref, h3) = new_obj (MapObj (plansMap (vendor_plans state))) h2
          in case calculateAll_loop_st toFixed pm_ref (plan_assignment state)
                    (environments state) results_ref totals_ref h3 of
               None \<Rightarrow> None
             | Some h4 \<Rightarrow> Some ((results_ref, totals_ref), h4))
     | _ \<Rightarrow> None)"

text \<open>What a caller holding the returned references finds behind them.\<close>

definition read_results :: "obj list \<Rightarrow> nat \<times> nat \<Rightarrow> Results option" where
  "read_results h r =
    (case deref h (fst r) of
       Some (ArrayObj xs) \<Rightarrow>
         (case deref h (snd r) of
            Some (TotalsObj t) \<Rightarrow> Some \<lparr>perEnv = xs, totals = t\<rparr>
          | _ \<Rightarrow> None)
     | _ \<Rightarrow> None)"

section \<open>Properties of \<^verbatim>\<open>calculateCost\<close>\<close>

subsection \<open>Auxiliary facts\<close>

lemma raw_cost_eq:
  "raw_cost (calculateCost pt ct p) =
     pt / 1000 * price_prompt_per_1k p + ct / 1000 * price_completion_per_1k p"
  by (simp add: calculateCost_def Let_def split: prod.splits)

lemma final_cost_cases:
  "final_cost (calculateCost pt ct p) =
    (if falsy_or (monthly_commit_credit p) 0 > 0 then
       min (cost_after_free_tier (calculateCost pt ct p)) (falsy_or (monthly_commit_credit p) 0)
       + max 0 (cost_after_free_tier (calculateCost pt ct p) - falsy_or (monthly_commit_credit p) 0)
         * falsy_or (overage_multiplier p) 1
     else cost_after_free_tier (calculateCost pt ct p))"
  by (simp add: calculateCost_def Let_def split: prod.splits)

lemma cost_after_free_tier_nonneg:
  assumes "0 \<le> price_prompt_per_1k p" "0 \<le> price_completion_per_1k p" "0 \<le> pt" "0 \<le> ct"
  shows "0 \<le> cost_after_free_tier (calculateCost pt ct p)"
  using assms by (auto simp add: calculateCost_def Let_def split: prod.splits)

lemma final_cost_nonneg:
  assumes "plan_nonneg p" "0 \<le> pt" "0 \<le> ct"
  shows "0 \<le> final_cost (calculateCost pt ct p)"
proof -
  let ?c = "cost_after_free_tier (calculateCost pt ct p)"
  let ?commit = "falsy_or (monthly_commit_credit p) 0"
  have c: "0 \<le> ?c"
    using assms by (simp add: cost_after_free_tier_nonneg plan_nonneg_def)
  show ?thesis
  proof (cases "?commit > 0")
    case True
    have "0 \<le> max 0 (?c - ?commit) * falsy_or (overage_multiplier p) 1"
      using assms(1) by (intro mult_nonneg_nonneg) (simp_all add: plan_nonneg_def)
    moreover have "0 \<le> min ?c ?commit"
      using c True by simp
    ultimately show ?thesis
      using True by (simp add: final_cost_cases)
  next
    case False
    then show ?thesis
      using c by (simp add: final_cost_cases)
  qed
qed

lemma free_tier_bound:
  assumes "0 \<le> price_prompt_per_1k p" "0 \<le> price_completion_per_1k p" "0 \<le> pt" "0 \<le> ct"
  shows "cost_after_free_tier (calculateCost pt ct p) \<le> raw_cost (calculateCost pt ct p)"
proof (cases "falsy_or (free_tier_tokens p) 0 > 0 \<and> pt + ct > 0")
  case True
  define ratio where "ratio = max 0 (pt + ct - falsy_or (free_tier_tokens p) 0) / (pt + ct)"
  define full where
    "full = pt / 1000 * price_prompt_per_1k p + ct / 1000 * price_completion_per_1k p"
  have r1: "ratio \<le> 1"
    using True by (simp add: ratio_def)
  have caf: "cost_after_free_tier (calculateCost pt ct p) = ratio * full"
    using True by (simp add: calculateCost_def Let_def ratio_def full_def algebra_simps)
  have raw: "raw_cost (calculateCost pt ct p) = full"
    by (simp add: raw_cost_eq full_def)
  have "0 \<le> full"
    using assms by (simp add: full_def)
  then have "ratio * full \<le> 1 * full"
    using r1 by (rule mult_right_mono [rotated])
  then show ?thesis
    unfolding caf raw by simp
next
  case False
  then show ?thesis
    by (auto simp add: calculateCost_def Let_def)
qed

lemma free_tier_covers_all:
  assumes "0 \<le> pt" "0 \<le> ct" "pt + ct \<le> ft" "free_tier_tokens p = Some ft"
  shows "cost_after_free_tier (calculateCost pt ct p) = 0"
proof (cases "0 < pt + ct")
  case True
  then show ?thesis
    using assms by (auto simp add: calculateCost_def Let_def falsy_or_def max_def)
next
  case False
  then have "pt = 0" "ct = 0"
    using assms(1,2) by linarith+
  then show ?thesis
    by (simp add: calculateCost_def Let_def)
qed

subsection \<open>The claims about the cost resolver\<close>

text \<open>
  Claim C3. For every plan and all token counts, \<open>raw_cost\<close> is
  \<open>(promptTokens / 1000) * price_prompt_per_1k + (completionTokens / 1000) *
  price_completion_per_1k\<close>; it does not change when the plan's \<open>free_tier_tokens\<close> is
  replaced by any other value (absent included); and in Scenario B, with a free tier of
  1,000,000 tokens, it is still 12.096. The non-negativity of the token counts is not
  needed.
\<close>

theorem raw_cost_ignores_free_tier:
  "raw_cost (calculateCost pt ct p) =
     pt / 1000 * price_prompt_per_1k p + ct / 1000 * price_completion_per_1k p
   \<and> raw_cost (calculateCost pt ct (p\<lparr>free_tier_tokens := ft\<rparr>)) = raw_cost (calculateCost pt ct p)
   \<and> raw_cost (calculateCost 2016000 1344000
        (p\<lparr>price_prompt_per_1k := 0.002, price_completion_per_1k := 0.006,
           free_tier_tokens := Some 1000000\<rparr>)) = 12.096"
  by (simp add: calculateCost_def Let_def split: prod.splits)

text \<open>
  Claim C7. For every plan whose \<open>free_tier_tokens\<close> is 0 and all token counts,
  \<open>cost_after_free_tier\<close> equals \<open>raw_cost\<close>. The non-negativity of the token counts is
  not needed.
\<close>

theorem free_tier_zero_cost_is_raw:
  assumes "free_tier_tokens p = Some 0"
  shows "cost_after_free_tier (calculateCost pt ct p) = raw_cost (calculateCost pt ct p)"
  using assms by (simp add: calculateCost_def Let_def falsy_or_def)

theorem free_tier_zero_cost_is_raw_witness:
  "free_tier_tokens plan_1 = Some 0
   \<and> cost_after_free_tier (calculateCost 2016000 1344000 plan_1) = 12.096
   \<and> raw_cost (calculateCost 2016000 1344000 plan_1) = 12.096"
proof -
  have h: "free_tier_tokens plan_1 = Some 0"
    by (simp add: plan_1_def)
  have "raw_cost (calculateCost 2016000 1344000 plan_1) = 12.096"
    by (simp add: raw_cost_eq plan_1_def)
  then show ?thesis
    using h free_tier_zero_cost_is_raw [OF h, of 2016000 1344000] by simp
qed

text \<open>
  Claim C6. A plan whose \<open>overage_multiplier\<close> is exactly 0 gets the same result, and so
  the same \<open>final_cost\<close>, as the plan with the multiplier 1.0 and as the plan with no
  multiplier at all. This holds whatever the commit credit is.
\<close>

theorem overage_multiplier_zero_is_default:
  "calculateCost pt ct (p\<lparr>overage_multiplier := Some 0\<rparr>) =
     calculateCost pt ct (p\<lparr>overage_multiplier := Some 1\<rparr>)
   \<and> calculateCost pt ct (p\<lparr>overage_multiplier := Some 0\<rparr>) =
     calculateCost pt ct (p\<lparr>overage_multiplier := None\<rparr>)"
  by (simp add: calculateCost_def Let_def falsy_or_def split: prod.splits)

text \<open>
  Claim C10. For every plan with non-negative prices and all non-negative token counts,
  \<open>cost_after_free_tier\<close> is at most \<open>raw_cost\<close>, and it is 0 when the free tier is at
  least the total of the tokens. The sign of the free tier is not needed: a free tier that
  is 0, negative or absent leaves the token counts as they are.
\<close>

theorem free_tier_never_raises_cost:
  assumes "0 \<le> price_prompt_per_1k p" "0 \<le> price_completion_per_1k p" "0 \<le> pt" "0 \<le> ct"
  shows "cost_after_free_tier (calculateCost pt ct p) \<le> raw_cost (calculateCost pt ct p)
       \<and> (\<forall>ft. free_tier_tokens p = Some ft \<and> pt + ct \<le> ft \<longrightarrow>
              cost_after_free_tier (calculateCost pt ct p) = 0)"
  using assms by (auto simp add: free_tier_bound intro: free_tier_covers_all)

theorem free_tier_never_raises_cost_witness:
  "cost_after_free_tier (calculateCost 2016000 1344000 (plan_1\<lparr>free_tier_tokens := Some 1000000\<rparr>))
     \<le> raw_cost (calculateCost 2016000 1344000 (plan_1\<lparr>free_tier_tokens := Some 1000000\<rparr>))
   \<and> (2016000::real) + 1344000 \<le> 4000000
   \<and> cost_after_free_tier (calculateCost 2016000 1344000 (plan_1\<lparr>free_tier_tokens := Some 4000000\<rparr>)) = 0"
proof -
  have a: "0 \<le> price_prompt_per_1k (plan_1\<lparr>free_tier_tokens := Some 1000000\<rparr>)"
          "0 \<le> price_completion_per_1k (plan_1\<lparr>free_tier_tokens := Some 1000000\<rparr>)"
    by (simp_all add: plan_1_def)
  have b: "0 \<le> price_prompt_per_1k (plan_1\<lparr>free_tier_tokens := Some 4000000\<rparr>)"
          "0 \<le> price_completion_per_1k (plan_1\<lparr>free_tier_tokens := Some 4000000\<rparr>)"
    by (simp_all add: plan_1_def)
  have t: "(0::real) \<le> 2016000" "(0::real) \<le> 1344000"
    by simp_all
  show ?thesis
    using free_tier_never_raises_cost [OF a t] free_tier_never_raises_cost [OF b t]
    by simp
qed

text \<open>
  Claim C2, as amended. If the plan's commit credit is 0 (or absent), \<open>final_cost\<close> equals
  \<open>cost_after_free_tier\<close>. If the commit credit \<open>c\<close> is positive, \<open>final_cost\<close> is
  \<open>min cost_after_free_tier c + max 0 (cost_after_free_tier - c) * m\<close>, where \<open>m\<close> is the
  plan's overage multiplier, or 1 when that multiplier is 0 or absent. With a commit of 5, a
  multiplier of 1.5 and a \<open>cost_after_free_tier\<close> of 8.4936 the final cost is 10.2404.
\<close>

theorem final_cost_commit_overage:
  "(monthly_commit_credit p = Some 0 \<or> monthly_commit_credit p = None \<longrightarrow>
      final_cost (calculateCost pt ct p) = cost_after_free_tier (calculateCost pt ct p))
   \<and> (monthly_commit_credit p = Some c \<and> 0 < c \<longrightarrow>
      final_cost (calculateCost pt ct p) =
        min (cost_after_free_tier (calculateCost pt ct p)) c
        + max 0 (cost_after_free_tier (calculateCost pt ct p) - c)
          * falsy_or (overage_multiplier p) 1)
   \<and> (monthly_commit_credit p = Some 5 \<and> overage_multiplier p = Some 1.5 \<and>
      cost_after_free_tier (calculateCost pt ct p) = 8.4936 \<longrightarrow>
      final_cost (calculateCost pt ct p) = 10.2404)"
  by (auto simp add: final_cost_cases falsy_or_def)

theorem final_cost_commit_overage_witness:
  "monthly_commit_credit plan_1 = Some 0
   \<and> final_cost (calculateCost 2016000 1344000 plan_1) =
       cost_after_free_tier (calculateCost 2016000 1344000 plan_1)
   \<and> monthly_commit_credit (plan_1\<lparr>monthly_commit_credit := Some 5, overage_multiplier := Some 1.5\<rparr>)
       = Some 5
   \<and> overage_multiplier (plan_1\<lparr>monthly_commit_credit := Some 5, overage_multiplier := Some 1.5\<rparr>)
       = Some 1.5
   \<and> cost_after_free_tier (calculateCost 4246800 0
        (plan_1\<lparr>monthly_commit_credit := Some 5, overage_multiplier := Some 1.5\<rparr>)) = 8.4936
   \<and> final_cost (calculateCost 4246800 0
        (plan_1\<lparr>monthly_commit_credit := Some 5, overage_multiplier := Some 1.5\<rparr>)) = 10.2404"
proof -
  let ?q = "plan_1\<lparr>monthly_commit_credit := Some 5, overage_multiplier := Some 1.5\<rparr>"
  have h1: "monthly_commit_credit plan_1 = Some 0"
    by (simp add: plan_1_def)
  have h2: "monthly_commit_credit ?q = Some 5" "overage_multiplier ?q = Some 1.5"
    by simp_all
  have h3: "cost_after_free_tier (calculateCost 4246800 0 ?q) = 8.4936"
    by (simp add: calculateCost_def Let_def falsy_or_def plan_1_def)
  show ?thesis
    using h1 h2 h3
      final_cost_commit_overage [of plan_1 2016000 1344000 5]
      final_cost_commit_overage [of ?q 4246800 0 5]
    by simp
qed

text \<open>
  The claim C2 as it is written, with the plan's own multiplier in the formula, fails for a
  multiplier of 0: with a commit of 5 and a cost of 8 the code charges the overage of 3 at
  the multiplier 1, so the final cost is 8 and not 5.
\<close>

theorem final_cost_commit_overage_counterexample:
  "monthly_commit_credit (plan_1\<lparr>monthly_commit_credit := Some 5, overage_multiplier := Some 0\<rparr>)
     = Some 5
   \<and> overage_multiplier (plan_1\<lparr>monthly_commit_credit := Some 5, overage_multiplier := Some 0\<rparr>)
     = Some 0
   \<and> cost_after_free_tier (calculateCost 4000000 0
        (plan_1\<lparr>monthly_commit_credit := Some 5, overage_multiplier := Some 0\<rparr>)) = 8
   \<and> final_cost (calculateCost 4000000 0
        (plan_1\<lparr>monthly_commit_credit := Some 5, overage_multiplier := Some 0\<rparr>)) = 8
   \<and> final_cost (calculateCost 4000000 0
        (plan_1\<lparr>monthly_commit_credit := Some 5, overage_multiplier := Some 0\<rparr>))
     \<noteq> min (cost_after_free_tier (calculateCost 4000000 0
              (plan_1\<lparr>monthly_commit_credit := Some 5, overage_multiplier := Some 0\<rparr>))) 5
       + max 0 (cost_after_free_tier (calculateCost 4000000 0
              (plan_1\<lparr>monthly_commit_credit := Some 5, overage_multiplier := Some 0\<rparr>)) - 5) * 0"
  by (simp add: calculateCost_def Let_def falsy_or_def plan_1_def)

section \<open>Properties of \<^verbatim>\<open>calculateAll\<close>\<close>

subsection \<open>The loop as a map and a fold\<close>

lemma calculateAll_loop_eq:
  "calculateAll_loop tf pm pa envs rs t =
     (rs @ map (outcome tf pm pa) envs, foldl accumulate t (map (outcome tf pm pa) envs))"
  by (induction envs arbitrary: rs t)
     (simp_all add: outcome_def accumulate_def Let_def split: option.splits)

lemma perEnv_calculateAll:
  "perEnv (calculateAll tf st) =
     map (outcome tf (plansMap (vendor_plans st)) (plan_assignment st)) (environments st)"
  by (simp add: calculateAll_def calculateAll_loop_eq)

lemma totals_calculateAll:
  "totals (calculateAll tf st) =
     foldl accumulate zero_totals
       (map (outcome tf (plansMap (vendor_plans st)) (plan_assignment st)) (environments st))"
  by (simp add: calculateAll_def calculateAll_loop_eq)

subsection \<open>The plan table\<close>

lemma fold_plans_None:
  "fold (\<lambda>p m. m(plan_id p \<mapsto> p)) plans m0 i = None \<longleftrightarrow>
     i \<notin> plan_id ` set plans \<and> m0 i = None"
  by (induction plans arbitrary: m0) auto

lemma plansMap_None: "plansMap plans i = None \<longleftrightarrow> i \<notin> plan_id ` set plans"
  by (simp add: plansMap_def fold_plans_None)

lemma fold_plans_Some:
  "fold (\<lambda>p m. m(plan_id p \<mapsto> p)) plans m0 i = Some q \<Longrightarrow>
     (q \<in> set plans \<and> plan_id q = i) \<or> m0 i = Some q"
proof (induction plans arbitrary: m0)
  case Nil
  then show ?case by simp
next
  case (Cons a plans)
  from Cons.prems
  have "fold (\<lambda>p m. m(plan_id p \<mapsto> p)) plans (m0(plan_id a \<mapsto> a)) i = Some q"
    by (simp only: fold.simps comp_apply)
  from Cons.IH [OF this]
  have "(q \<in> set plans \<and> plan_id q = i) \<or> (m0(plan_id a \<mapsto> a)) i = Some q" .
  then show ?case by (auto split: if_splits)
qed

lemma plansMap_Some: "plansMap plans i = Some q \<Longrightarrow> q \<in> set plans \<and> plan_id q = i"
  using fold_plans_Some [of plans Map.empty i q] by (simp add: plansMap_def)

lemma lookup_plan_None:
  "lookup_plan (plansMap plans) pa e = None \<longleftrightarrow>
     pa (env_id e) = None \<or> (\<exists>i. pa (env_id e) = Some i \<and> i \<notin> plan_id ` set plans)"
  by (auto simp add: lookup_plan_def plansMap_None split: option.splits)

lemma lookup_plan_Some:
  "lookup_plan (plansMap plans) pa e = Some q \<Longrightarrow> q \<in> set plans"
  by (auto simp add: lookup_plan_def split: option.splits dest: plansMap_Some)

subsection \<open>Token counts of an environment in range\<close>

lemma effective_tokens_nonneg:
  assumes "env_in_range e"
  shows "0 \<le> effective_tokens_per_request e"
proof -
  let ?s = "nullish (cache_savings_factor e) 0.8"
  have "cache_hit_rate e * ?s \<le> 1 * 1"
    using assms unfolding env_in_range_def by (intro mult_mono) simp_all
  then have "0 \<le> 1 - cache_hit_rate e * ?s"
    by simp
  then have "0 \<le> context_tokens e * (1 - cache_hit_rate e * ?s)"
    using assms unfolding env_in_range_def by (intro mult_nonneg_nonneg) simp_all
  then show ?thesis
    using assms by (simp add: effective_tokens_per_request_def env_in_range_def)
qed

lemma monthly_tokens_nonneg:
  assumes "env_in_range e"
  shows "0 \<le> requests_per_day e * effective_tokens_per_request e * days_per_month e"
  using assms effective_tokens_nonneg [OF assms]
  by (simp add: env_in_range_def)

subsection \<open>The fields of a result\<close>

lemma envResult_tokens:
  "r_monthly_tokens (envResult tf e p) =
     requests_per_day e * effective_tokens_per_request e * days_per_month e"
  "r_prompt_tokens (envResult tf e p) =
     r_monthly_tokens (envResult tf e p) * (1 - nullish (completion_share e) 0.4)"
  "r_completion_tokens (envResult tf e p) =
     r_monthly_tokens (envResult tf e p) * nullish (completion_share e) 0.4"
  by (simp_all add: envResult_def Let_def)

lemma envResult_costs:
  "r_raw_cost (envResult tf e p) =
     raw_cost (calculateCost (r_prompt_tokens (envResult tf e p))
       (r_completion_tokens (envResult tf e p)) p)"
  "r_cost_after_free_tier (envResult tf e p) =
     cost_after_free_tier (calculateCost (r_prompt_tokens (envResult tf e p))
       (r_completion_tokens (envResult tf e p)) p)"
  "r_final_cost (envResult tf e p) =
     final_cost (calculateCost (r_prompt_tokens (envResult tf e p))
       (r_completion_tokens (envResult tf e p)) p)"
  by (simp_all add: envResult_def Let_def)

lemma envResult_alert:
  "r_utilization (envResult tf e p) =
     (if monthly_budget e > 0 then r_final_cost (envResult tf e p) / monthly_budget e else 0)"
  "r_status (envResult tf e p) =
     (if r_utilization (envResult tf e p)
           \<ge> critical (nullish (alert_thresholds e) \<lparr>warn = 0.8, critical = 1.0\<rparr>)
      then ''RED''
      else if r_utilization (envResult tf e p)
           \<ge> warn (nullish (alert_thresholds e) \<lparr>warn = 0.8, critical = 1.0\<rparr>)
      then ''AMBER''
      else ''GREEN'')"
  by (simp_all add: envResult_def Let_def)

lemma envResult_suggestion:
  "r_suggestion (envResult tf e p) =
     (if r_status (envResult tf e p) = ''RED'' \<or> r_status (envResult tf e p) = ''AMBER'' then
        (let shortfall = r_final_cost (envResult tf e p) - monthly_budget e;
             suggestion0 =
               (if shortfall > 0 then
                  ''Budget shortfall of '' @ currency p @ '' '' @ tf shortfall 2 @ ''. ''
                else []);
             target_cost =
               monthly_budget e * warn (nullish (alert_thresholds e) \<lparr>warn = 0.8, critical = 1.0\<rparr>);
             percent_to_reduce =
               (if r_final_cost (envResult tf e p) > 0 then
                  (r_final_cost (envResult tf e p) - target_cost) / r_final_cost (envResult tf e p)
                else 0)
         in if percent_to_reduce > 0 then
              suggestion0 @ ''To reach safety (sub-'' @
              tf (warn (nullish (alert_thresholds e) \<lparr>warn = 0.8, critical = 1.0\<rparr>) * 100) 0 @
              ''%), reduce token usage by ~'' @ tf (percent_to_reduce * 100) 0 @
              ''% or raise budget.''
            else suggestion0)
      else [])"
  by (simp add: envResult_def Let_def)

lemma envResult_nonneg:
  assumes "env_in_range e" "plan_nonneg p"
  shows "0 \<le> r_final_cost (envResult tf e p)" "0 \<le> r_cost_after_free_tier (envResult tf e p)"
proof -
  let ?m = "requests_per_day e * effective_tokens_per_request e * days_per_month e"
  let ?c = "nullish (completion_share e) 0.4"
  have m: "0 \<le> ?m"
    using assms(1) by (rule monthly_tokens_nonneg)
  have "0 \<le> 1 - ?c" "0 \<le> ?c"
    using assms(1) by (simp_all add: env_in_range_def)
  with m have pt: "0 \<le> ?m * (1 - ?c)" and ct: "0 \<le> ?m * ?c"
    by (simp_all only: mult_nonneg_nonneg)
  show "0 \<le> r_final_cost (envResult tf e p)"
    unfolding envResult_costs envResult_tokens using assms(2) pt ct by (rule final_cost_nonneg)
  show "0 \<le> r_cost_after_free_tier (envResult tf e p)"
    unfolding envResult_costs envResult_tokens
    using assms(2) pt ct by (intro cost_after_free_tier_nonneg) (simp_all add: plan_nonneg_def)
qed

subsection \<open>The default state, run\<close>

text \<open>
  The model evaluated on \<^verbatim>\<open>DEFAULT_STATE\<close>: the production environment stays within
  its budget, the staging environment exceeds it twice over.
\<close>

lemma env_1_result:
  "envResult toFixed_decimal env_1 plan_1 =
    \<lparr>r_env_id = ''env_1'', r_env_name = ''Production (Test Scenario)'',
     r_plan_name = ''OpenAI - Test-Plan (from prompt)'',
     r_currency = ''EUR'', r_budget = 20, r_budget_currency = ''EUR'',
     r_monthly_tokens = 3360000, r_prompt_tokens = 2016000, r_completion_tokens = 1344000,
     r_raw_cost = 12.096, r_cost_after_free_tier = 12.096, r_final_cost = 12.096,
     r_utilization = 0.6048, r_status = ''GREEN'', r_suggestion = []\<rparr>"
  by (simp add: envResult_def effective_tokens_per_request_def calculateCost_def Let_def
        nullish_def falsy_or_def env_1_def plan_1_def)

lemma env_2_result:
  "envResult toFixed_decimal env_2 plan_2 =
    \<lparr>r_env_id = ''env_2'', r_env_name = ''Staging'', r_plan_name = ''Anthropic - Opus'',
     r_currency = ''USD'', r_budget = 50, r_budget_currency = ''USD'',
     r_monthly_tokens = 3212000, r_prompt_tokens = 2248400, r_completion_tokens = 963600,
     r_raw_cost = 105.996, r_cost_after_free_tier = 105.996, r_final_cost = 105.996,
     r_utilization = 2.11992, r_status = ''RED'',
     r_suggestion = ''Budget shortfall of USD 56.00. To reach safety (sub-80%), reduce token usage by ~62% or raise budget.''\<rparr>"
  by (simp add: envResult_def effective_tokens_per_request_def calculateCost_def Let_def
        nullish_def falsy_or_def env_2_def plan_2_def toFixed_decimal_def digits.simps)

lemma default_state_results:
  "calculateAll toFixed_decimal DEFAULT_STATE =
    \<lparr>perEnv = [Ok (envResult toFixed_decimal env_1 plan_1), Ok (envResult toFixed_decimal env_2 plan_2)],
     totals = \<lparr>t_total_tokens = 6572000, t_prompt_tokens = 4264400,
               t_completion_tokens = 2307600, t_raw_cost = 118.092,
               t_final_cost = 118.092, t_budget = 70\<rparr>\<rparr>"
proof -
  have l1: "lookup_plan (plansMap [plan_1, plan_2]) [''env_1'' \<mapsto> ''plan_1'', ''env_2'' \<mapsto> ''plan_2''] env_1 = Some plan_1"
    by (simp add: lookup_plan_def plansMap_def env_1_def plan_1_def plan_2_def)
  have l2: "lookup_plan (plansMap [plan_1, plan_2]) [''env_1'' \<mapsto> ''plan_1'', ''env_2'' \<mapsto> ''plan_2''] env_2 = Some plan_2"
    by (simp add: lookup_plan_def plansMap_def env_2_def plan_1_def plan_2_def)
  show ?thesis
    by (simp add: calculateAll_def DEFAULT_STATE_def l1 l2 Let_def add_totals_def zero_totals_def
          env_1_result env_2_result)
qed

subsection \<open>The claims about the evaluator and the aggregator\<close>

text \<open>
  Claim C1 (Scenario A). Take any environment and set its usage fields to
  \<open>requests_per_day = 100\<close>, \<open>avg_tokens_per_request = 1000\<close>, \<open>context_tokens = 200\<close>,
  \<open>cache_hit_rate = 0.5\<close>, \<open>cache_savings_factor = 0.8\<close>, \<open>completion_share = 0.4\<close>,
  \<open>days_per_month = 30\<close>; take any plan and set \<open>price_prompt_per_1k = 0.002\<close>,
  \<open>price_completion_per_1k = 0.006\<close>, \<open>free_tier_tokens = 0\<close>,
  \<open>monthly_commit_credit = 0\<close>. Then the effective tokens per request are 1120, and
  \<open>calculateAll\<close> on the state made of this environment assigned to this plan returns one
  result, which is not an error, with \<open>monthly_tokens = 3360000\<close>,
  \<open>completion_tokens = 1344000\<close>, \<open>prompt_tokens = 2016000\<close> and
  \<open>raw_cost = cost_after_free_tier = final_cost = 12.096\<close>. The other fields (names, ids,
  budget, thresholds, overage multiplier) are arbitrary.
\<close>

theorem scenario_A:
  "(let eA = e\<lparr>requests_per_day := 100, avg_tokens_per_request := 1000, context_tokens := 200,
               cache_hit_rate := 0.5, cache_savings_factor := Some 0.8,
               completion_share := Some 0.4, days_per_month := 30\<rparr>;
        pA = p\<lparr>price_prompt_per_1k := 0.002, price_completion_per_1k := 0.006,
               free_tier_tokens := Some 0, monthly_commit_credit := Some 0\<rparr>;
        r = envResult toFixed eA pA
    in effective_tokens_per_request eA = 1120
     \<and> perEnv (calculateAll toFixed
          \<lparr>environments = [eA], vendor_plans = [pA],
           plan_assignment = [env_id eA \<mapsto> plan_id pA]\<rparr>) = [Ok r]
     \<and> r_monthly_tokens r = 3360000
     \<and> r_completion_tokens r = 1344000
     \<and> r_prompt_tokens r = 2016000
     \<and> r_raw_cost r = 12.096
     \<and> r_cost_after_free_tier r = 12.096
     \<and> r_final_cost r = 12.096)"
proof -
  define eA where
    "eA = e\<lparr>requests_per_day := 100, avg_tokens_per_request := 1000, context_tokens := 200,
             cache_hit_rate := 0.5, cache_savings_factor := Some 0.8,
             completion_share := Some 0.4, days_per_month := 30\<rparr>"
  define pA where
    "pA = p\<lparr>price_prompt_per_1k := 0.002, price_completion_per_1k := 0.006,
             free_tier_tokens := Some 0, monthly_commit_credit := Some 0\<rparr>"
  have eff: "effective_tokens_per_request eA = 1120"
    by (simp add: effective_tokens_per_request_def nullish_def eA_def)
  have run: "perEnv (calculateAll toFixed
          \<lparr>environments = [eA], vendor_plans = [pA],
           plan_assignment = [env_id eA \<mapsto> plan_id pA]\<rparr>) = [Ok (envResult toFixed eA pA)]"
    by (simp add: perEnv_calculateAll outcome_def lookup_plan_def plansMap_def)
  have m: "r_monthly_tokens (envResult toFixed eA pA) = 3360000"
    by (simp add: envResult_tokens(1) eff) (simp add: eA_def)
  have ct: "r_completion_tokens (envResult toFixed eA pA) = 1344000"
    by (simp add: envResult_tokens(3) m) (simp add: eA_def nullish_def)
  have pt: "r_prompt_tokens (envResult toFixed eA pA) = 2016000"
    by (simp add: envResult_tokens(2) m) (simp add: eA_def nullish_def)
  have cost: "calculateCost 2016000 1344000 pA =
      \<lparr>raw_cost = 12.096, cost_after_free_tier = 12.096, final_cost = 12.096\<rparr>"
    by (simp add: calculateCost_def Let_def falsy_or_def pA_def)
  have costs: "r_raw_cost (envResult toFixed eA pA) = 12.096"
    "r_cost_after_free_tier (envResult toFixed eA pA) = 12.096"
    "r_final_cost (envResult toFixed eA pA) = 12.096"
    by (simp_all add: envResult_costs pt ct cost)
  show ?thesis
    unfolding Let_def eA_def [symmetric] pA_def [symmetric]
    using eff run m ct pt costs by simp
qed

text \<open>
  Claim C4, as amended. For every environment of the state with \<open>monthly_budget = 0\<close>
  whose assignment names a plan of the plan list, and whose thresholds, where the
  environment carries any, are both greater than 0 (the default thresholds 0.8 and 1.0
  are), the result at the environment's position is not an error and has
  \<open>utilization = 0\<close>, \<open>status = GREEN\<close> and the empty suggestion, whatever the cost is.
\<close>

theorem zero_budget_is_green:
  assumes "i < length (environments st)"
    and "monthly_budget (environments st ! i) = 0"
    and "\<forall>th. alert_thresholds (environments st ! i) = Some th \<longrightarrow> 0 < warn th \<and> 0 < critical th"
    and "plan_assignment st (env_id (environments st ! i)) = Some pid"
    and "pid \<in> plan_id ` set (vendor_plans st)"
  shows "\<exists>r. perEnv (calculateAll toFixed st) ! i = Ok r \<and> r_utilization r = 0 \<and>
             r_status r = ''GREEN'' \<and> r_suggestion r = []"
proof -
  let ?e = "environments st ! i"
  let ?th = "nullish (alert_thresholds ?e) \<lparr>warn = 0.8, critical = 1.0\<rparr>"
  obtain p where p: "plansMap (vendor_plans st) pid = Some p"
    using assms(5) plansMap_None [of "vendor_plans st" pid]
    by (cases "plansMap (vendor_plans st) pid") auto
  have o: "perEnv (calculateAll toFixed st) ! i = Ok (envResult toFixed ?e p)"
    using assms(1,4) p by (simp add: perEnv_calculateAll outcome_def lookup_plan_def)
  have th: "0 < warn ?th" "0 < critical ?th"
    using assms(3) by (auto simp add: nullish_def split: option.splits)
  have "r_utilization (envResult toFixed ?e p) = 0"
    using assms(2) by (simp add: envResult_def Let_def)
  moreover have "r_status (envResult toFixed ?e p) = ''GREEN''"
    using assms(2) th by (simp add: envResult_def Let_def)
  moreover have "r_suggestion (envResult toFixed ?e p) = []"
    using assms(2) th by (simp add: envResult_def Let_def)
  ultimately show ?thesis
    using o by simp
qed

theorem zero_budget_is_green_witness:
  "(0::nat) < length (environments (DEFAULT_STATE\<lparr>environments := [env_1\<lparr>monthly_budget := 0\<rparr>, env_2]\<rparr>))
   \<and> monthly_budget (env_1\<lparr>monthly_budget := 0\<rparr>) = 0
   \<and> alert_thresholds (env_1\<lparr>monthly_budget := 0\<rparr>) = Some \<lparr>warn = 0.8, critical = 1.0\<rparr>
   \<and> plan_assignment DEFAULT_STATE ''env_1'' = Some ''plan_1''
   \<and> (\<exists>r. perEnv (calculateAll toFixed_decimal
          (DEFAULT_STATE\<lparr>environments := [env_1\<lparr>monthly_budget := 0\<rparr>, env_2]\<rparr>)) ! 0 = Ok r
        \<and> r_utilization r = 0 \<and> r_status r = ''GREEN'' \<and> r_suggestion r = [])"
proof -
  let ?st = "DEFAULT_STATE\<lparr>environments := [env_1\<lparr>monthly_budget := 0\<rparr>, env_2]\<rparr>"
  have h1: "0 < length (environments ?st)"
    by simp
  have h2: "monthly_budget (environments ?st ! 0) = 0"
    by simp
  have h3: "\<forall>th. alert_thresholds (environments ?st ! 0) = Some th \<longrightarrow> 0 < warn th \<and> 0 < critical th"
    by (simp add: env_1_def)
  have h4: "plan_assignment ?st (env_id (environments ?st ! 0)) = Some ''plan_1''"
    by (simp add: DEFAULT_STATE_def env_1_def)
  have h5: "''plan_1'' \<in> plan_id ` set (vendor_plans ?st)"
    by (simp add: DEFAULT_STATE_def plan_1_def)
  show ?thesis
    using zero_budget_is_green [OF h1 h2 h3 h4 h5, of toFixed_decimal]
    by (simp add: DEFAULT_STATE_def env_1_def)
qed

text \<open>
  The claim C4 as it is written, for every environment with a budget of 0, fails when a
  threshold is not positive: with \<open>warn = 0\<close> the utilization 0 reaches the warning
  threshold, so the status is AMBER and a suggestion is produced.
\<close>

theorem zero_budget_is_green_counterexample:
  "monthly_budget (env_1\<lparr>monthly_budget := 0, alert_thresholds := Some \<lparr>warn = 0, critical = 1\<rparr>\<rparr>) = 0
   \<and> perEnv (calculateAll toFixed_decimal
        (DEFAULT_STATE\<lparr>environments :=
           [env_1\<lparr>monthly_budget := 0, alert_thresholds := Some \<lparr>warn = 0, critical = 1\<rparr>\<rparr>]\<rparr>))
     = [Ok (envResult toFixed_decimal
          (env_1\<lparr>monthly_budget := 0, alert_thresholds := Some \<lparr>warn = 0, critical = 1\<rparr>\<rparr>) plan_1)]
   \<and> r_utilization (envResult toFixed_decimal
        (env_1\<lparr>monthly_budget := 0, alert_thresholds := Some \<lparr>warn = 0, critical = 1\<rparr>\<rparr>) plan_1) = 0
   \<and> r_status (envResult toFixed_decimal
        (env_1\<lparr>monthly_budget := 0, alert_thresholds := Some \<lparr>warn = 0, critical = 1\<rparr>\<rparr>) plan_1)
     = ''AMBER''
   \<and> r_suggestion (envResult toFixed_decimal
        (env_1\<lparr>monthly_budget := 0, alert_thresholds := Some \<lparr>warn = 0, critical = 1\<rparr>\<rparr>) plan_1)
     = ''Budget shortfall of EUR 12.10. To reach safety (sub-0%), reduce token usage by ~100% or raise budget.''"
proof -
  let ?e = "env_1\<lparr>monthly_budget := 0, alert_thresholds := Some \<lparr>warn = 0, critical = 1\<rparr>\<rparr>"
  have run: "perEnv (calculateAll toFixed_decimal (DEFAULT_STATE\<lparr>environments := [?e]\<rparr>))
      = [Ok (envResult toFixed_decimal ?e plan_1)]"
    by (simp add: perEnv_calculateAll outcome_def lookup_plan_def plansMap_def
          DEFAULT_STATE_def env_1_def plan_1_def plan_2_def)
  have u: "r_utilization (envResult toFixed_decimal ?e plan_1) = 0"
    by (simp add: envResult_alert(1))
  have s: "r_status (envResult toFixed_decimal ?e plan_1) = ''AMBER''"
    by (simp add: envResult_alert(2) u nullish_def)
  have eff: "effective_tokens_per_request ?e = 1120"
    by (simp add: effective_tokens_per_request_def nullish_def env_1_def)
  have m: "r_monthly_tokens (envResult toFixed_decimal ?e plan_1) = 3360000"
    by (simp add: envResult_tokens(1) eff) (simp add: env_1_def)
  have ct: "r_completion_tokens (envResult toFixed_decimal ?e plan_1) = 1344000"
    by (simp add: envResult_tokens(3) m) (simp add: env_1_def nullish_def)
  have pt: "r_prompt_tokens (envResult toFixed_decimal ?e plan_1) = 2016000"
    by (simp add: envResult_tokens(2) m) (simp add: env_1_def nullish_def)
  have c: "final_cost (calculateCost 2016000 1344000 plan_1) = 12.096"
    by (simp add: calculateCost_def Let_def falsy_or_def plan_1_def)
  have fc: "r_final_cost (envResult toFixed_decimal ?e plan_1) = 12.096"
    by (simp add: envResult_costs(3) pt ct c)
  have fmt: "toFixed_decimal (1512 / 125) 2 = ''12.10''" "toFixed_decimal 0 0 = ''0''"
    "toFixed_decimal 100 0 = ''100''"
    by (simp_all add: toFixed_decimal_def Let_def digits.simps)
  have cur: "currency plan_1 = ''EUR''"
    by (simp add: plan_1_def)
  have g: "r_suggestion (envResult toFixed_decimal ?e plan_1) =
      ''Budget shortfall of EUR 12.10. To reach safety (sub-0%), reduce token usage by ~100% or raise budget.''"
    by (simp add: envResult_suggestion s fc Let_def nullish_def fmt cur)
  show ?thesis
    using run u s g by simp
qed

text \<open>
  Claim C5. Let the environment \<open>e\<close> have no entry in the assignment, or an entry (the
  empty string left by the deletion of a plan included) that is not the id of a plan of the
  plan list. Wherever \<open>e\<close> stands in the list of environments, \<open>calculateAll\<close> returns,
  at its position, the error object with the environment's id and name, the text
  \<open>No valid plan assigned.\<close> and the status \<open>N/A\<close>, which has no cost field; the results
  of the environments before and after it are the ones they get without \<open>e\<close>; and the
  totals are the totals of the state without \<open>e\<close>.
\<close>

theorem unassigned_environment_isolated:
  assumes "plan_assignment st (env_id e) = None \<or>
           (\<exists>i. plan_assignment st (env_id e) = Some i \<and> i \<notin> plan_id ` set (vendor_plans st))"
  shows "perEnv (calculateAll toFixed (st\<lparr>environments := es1 @ e # es2\<rparr>)) =
           perEnv (calculateAll toFixed (st\<lparr>environments := es1\<rparr>)) @
           [Err \<lparr>e_env_id = env_id e, e_env_name = env_name e,
                 e_error = ''No valid plan assigned.'', e_status = ''N/A''\<rparr>] @
           perEnv (calculateAll toFixed (st\<lparr>environments := es2\<rparr>))
       \<and> perEnv (calculateAll toFixed (st\<lparr>environments := es1 @ es2\<rparr>)) =
           perEnv (calculateAll toFixed (st\<lparr>environments := es1\<rparr>)) @
           perEnv (calculateAll toFixed (st\<lparr>environments := es2\<rparr>))
       \<and> totals (calculateAll toFixed (st\<lparr>environments := es1 @ e # es2\<rparr>)) =
           totals (calculateAll toFixed (st\<lparr>environments := es1 @ es2\<rparr>))"
proof -
  have "lookup_plan (plansMap (vendor_plans st)) (plan_assignment st) e = None"
    using assms by (simp only: lookup_plan_None)
  then have o: "outcome toFixed (plansMap (vendor_plans st)) (plan_assignment st) e =
      Err (errorResult e)"
    by (simp add: outcome_def)
  show ?thesis
    by (simp add: perEnv_calculateAll totals_calculateAll o accumulate_def errorResult_def)
qed

theorem unassigned_environment_isolated_witness:
  "plan_assignment (DEFAULT_STATE\<lparr>vendor_plans := [plan_1]\<rparr>) (env_id env_2) = Some ''plan_2''
   \<and> ''plan_2'' \<notin> plan_id ` set (vendor_plans (DEFAULT_STATE\<lparr>vendor_plans := [plan_1]\<rparr>))
   \<and> perEnv (calculateAll toFixed_decimal
        (DEFAULT_STATE\<lparr>vendor_plans := [plan_1], environments := [env_1, env_2, env_1]\<rparr>)) =
       perEnv (calculateAll toFixed_decimal
        (DEFAULT_STATE\<lparr>vendor_plans := [plan_1], environments := [env_1]\<rparr>)) @
       [Err \<lparr>e_env_id = ''env_2'', e_env_name = ''Staging'',
             e_error = ''No valid plan assigned.'', e_status = ''N/A''\<rparr>] @
       perEnv (calculateAll toFixed_decimal
        (DEFAULT_STATE\<lparr>vendor_plans := [plan_1], environments := [env_1]\<rparr>))
   \<and> totals (calculateAll toFixed_decimal
        (DEFAULT_STATE\<lparr>vendor_plans := [plan_1], environments := [env_1, env_2, env_1]\<rparr>)) =
       totals (calculateAll toFixed_decimal
        (DEFAULT_STATE\<lparr>vendor_plans := [plan_1], environments := [env_1, env_1]\<rparr>))"
proof -
  let ?st = "DEFAULT_STATE\<lparr>vendor_plans := [plan_1]\<rparr>"
  have a: "plan_assignment ?st (env_id env_2) = Some ''plan_2''"
    by (simp add: DEFAULT_STATE_def env_2_def)
  have b: "''plan_2'' \<notin> plan_id ` set (vendor_plans ?st)"
    by (simp add: plan_1_def)
  have h: "plan_assignment ?st (env_id env_2) = None \<or>
      (\<exists>i. plan_assignment ?st (env_id env_2) = Some i \<and> i \<notin> plan_id ` set (vendor_plans ?st))"
    using a b by simp
  have n: "env_id env_2 = ''env_2''" "env_name env_2 = ''Staging''"
    by (simp_all add: env_2_def)
  show ?thesis
    using a b
      unassigned_environment_isolated [OF h, of toFixed_decimal "[env_1]" "[env_1]"]
    by (simp add: n)
qed

text \<open>
  Claim C8. For every plan with non-negative prices and a non-negative overage multiplier
  and all non-negative token counts, \<open>final_cost\<close> and \<open>cost_after_free_tier\<close> are
  non-negative; the signs of the commit credit and of the free tier are not needed. Hence,
  in a state whose plans are all such and whose environments all have their usage fields in
  the ranges of the data model, every result of \<open>calculateAll\<close> that is not an error has a
  non-negative \<open>final_cost\<close> and a non-negative \<open>cost_after_free_tier\<close>.
\<close>

theorem costs_nonneg:
  "(plan_nonneg p \<and> 0 \<le> pt \<and> 0 \<le> ct \<longrightarrow>
      0 \<le> final_cost (calculateCost pt ct p) \<and> 0 \<le> cost_after_free_tier (calculateCost pt ct p))
   \<and> ((\<forall>q\<in>set (vendor_plans st). plan_nonneg q) \<and>
      (\<forall>e\<in>set (environments st). env_in_range e) \<and>
      Ok r \<in> set (perEnv (calculateAll toFixed st)) \<longrightarrow>
      0 \<le> r_final_cost r \<and> 0 \<le> r_cost_after_free_tier r)"
proof (intro conjI impI)
  assume a: "plan_nonneg p \<and> 0 \<le> pt \<and> 0 \<le> ct"
  then show "0 \<le> final_cost (calculateCost pt ct p)"
    by (simp add: final_cost_nonneg)
  from a show "0 \<le> cost_after_free_tier (calculateCost pt ct p)"
    by (simp add: cost_after_free_tier_nonneg plan_nonneg_def)
next
  assume a: "(\<forall>q\<in>set (vendor_plans st). plan_nonneg q) \<and>
      (\<forall>e\<in>set (environments st). env_in_range e) \<and>
      Ok r \<in> set (perEnv (calculateAll toFixed st))"
  then obtain e where e: "e \<in> set (environments st)"
    and r: "Ok r = outcome toFixed (plansMap (vendor_plans st)) (plan_assignment st) e"
    by (auto simp add: perEnv_calculateAll)
  from r obtain q where q: "lookup_plan (plansMap (vendor_plans st)) (plan_assignment st) e = Some q"
    and rq: "r = envResult toFixed e q"
    by (auto simp add: outcome_def split: option.splits)
  from q have "q \<in> set (vendor_plans st)"
    by (rule lookup_plan_Some)
  with a have pq: "plan_nonneg q"
    by simp
  from a e have er: "env_in_range e"
    by simp
  show "0 \<le> r_final_cost r"
    unfolding rq using er pq by (rule envResult_nonneg)
  show "0 \<le> r_cost_after_free_tier r"
    unfolding rq using er pq by (rule envResult_nonneg)
qed

theorem costs_nonneg_witness:
  "plan_nonneg plan_1 \<and> (0::real) \<le> 2016000 \<and> (0::real) \<le> 1344000
   \<and> 0 \<le> final_cost (calculateCost 2016000 1344000 plan_1)
   \<and> 0 \<le> cost_after_free_tier (calculateCost 2016000 1344000 plan_1)
   \<and> vendor_plans DEFAULT_STATE = [plan_1, plan_2] \<and> plan_nonneg plan_2
   \<and> environments DEFAULT_STATE = [env_1, env_2] \<and> env_in_range env_1 \<and> env_in_range env_2
   \<and> Ok (envResult toFixed_decimal env_1 plan_1)
       \<in> set (perEnv (calculateAll toFixed_decimal DEFAULT_STATE))
   \<and> 0 \<le> r_final_cost (envResult toFixed_decimal env_1 plan_1)
   \<and> 0 \<le> r_cost_after_free_tier (envResult toFixed_decimal env_1 plan_1)"
proof -
  have p1: "plan_nonneg plan_1"
    by (simp add: plan_nonneg_def plan_1_def falsy_or_def)
  have p2: "plan_nonneg plan_2"
    by (simp add: plan_nonneg_def plan_2_def falsy_or_def)
  have e1: "env_in_range env_1"
    by (simp add: env_in_range_def env_1_def nullish_def)
  have e2: "env_in_range env_2"
    by (simp add: env_in_range_def env_2_def nullish_def)
  have ps: "\<forall>q\<in>set (vendor_plans DEFAULT_STATE). plan_nonneg q"
    using p1 p2 by (simp add: DEFAULT_STATE_def)
  have es: "\<forall>e\<in>set (environments DEFAULT_STATE). env_in_range e"
    using e1 e2 by (simp add: DEFAULT_STATE_def)
  have "outcome toFixed_decimal (plansMap (vendor_plans DEFAULT_STATE))
          (plan_assignment DEFAULT_STATE) env_1 = Ok (envResult toFixed_decimal env_1 plan_1)"
    by (simp add: outcome_def lookup_plan_def plansMap_def DEFAULT_STATE_def
          env_1_def plan_1_def plan_2_def)
  then have mem: "Ok (envResult toFixed_decimal env_1 plan_1)
      \<in> set (perEnv (calculateAll toFixed_decimal DEFAULT_STATE))"
    by (simp add: perEnv_calculateAll DEFAULT_STATE_def)
  show ?thesis
    using p1 p2 e1 e2 ps es mem
      costs_nonneg [of plan_1 2016000 1344000 DEFAULT_STATE
        "envResult toFixed_decimal env_1 plan_1" toFixed_decimal]
    by (simp add: DEFAULT_STATE_def)
qed

subsection \<open>Two calls on one heap\<close>

lemma list_update_twice:
  assumes "i \<noteq> j"
  shows "xs[i := a, j := b, i := a', j := b'] = xs[i := a', j := b']"
proof -
  have "xs[i := a, j := b, i := a'] = xs[i := a, i := a', j := b]"
    using assms by (simp add: list_update_swap [of j i])
  then show ?thesis
    by simp
qed

lemma calculateAll_loop_st_run:
  assumes "results_ref < length h" "totals_ref < length h" "pm_ref < length h"
    and "h ! results_ref = ArrayObj xs" "h ! totals_ref = TotalsObj t" "h ! pm_ref = MapObj pm"
  shows "calculateAll_loop_st tf pm_ref pa envs results_ref totals_ref h =
     Some (h[results_ref := ArrayObj (fst (calculateAll_loop tf pm pa envs xs t)),
             totals_ref := TotalsObj (snd (calculateAll_loop tf pm pa envs xs t))])"
  using assms
proof (induction envs arbitrary: h xs t)
  case Nil
  have "h[results_ref := h ! results_ref, totals_ref := h ! totals_ref] = h"
    by (simp only: list_update_id)
  with Nil show ?case
    by simp
next
  case (Cons env envs)
  have ne: "results_ref \<noteq> totals_ref" "pm_ref \<noteq> results_ref" "pm_ref \<noteq> totals_ref"
    using Cons.prems by auto
  have rm: "read_map h pm_ref = Some pm"
    using Cons.prems by (simp add: read_map_def deref_def)
  show ?case
  proof (cases "lookup_plan pm pa env")
    case None
    let ?h1 = "h[results_ref := ArrayObj (xs @ [Err (errorResult env)])]"
    have p: "push results_ref (Err (errorResult env)) h = Some ?h1"
      using Cons.prems by (simp add: push_def deref_def)
    have "calculateAll_loop_st tf pm_ref pa envs results_ref totals_ref ?h1 =
        Some (?h1[results_ref :=
                ArrayObj (fst (calculateAll_loop tf pm pa envs (xs @ [Err (errorResult env)]) t)),
              totals_ref :=
                TotalsObj (snd (calculateAll_loop tf pm pa envs (xs @ [Err (errorResult env)]) t))])"
      using Cons.prems ne by (intro Cons.IH) simp_all
    then show ?thesis
      using None rm p by simp
  next
    case (Some p)
    let ?r = "envResult tf env p"
    let ?h1 = "h[results_ref := ArrayObj (xs @ [Ok ?r])]"
    let ?h2 = "?h1[totals_ref := TotalsObj (add_totals t ?r)]"
    let ?out = "calculateAll_loop tf pm pa envs (xs @ [Ok ?r]) (add_totals t ?r)"
    have p1: "push results_ref (Ok ?r) h = Some ?h1"
      using Cons.prems by (simp add: push_def deref_def)
    have p2: "add_to_totals totals_ref ?r ?h1 = Some ?h2"
      using Cons.prems ne by (simp add: add_to_totals_def deref_def)
    have step: "calculateAll_loop_st tf pm_ref pa (env # envs) results_ref totals_ref h =
        calculateAll_loop_st tf pm_ref pa envs results_ref totals_ref ?h2"
      using Some rm p1 p2 by (simp add: Let_def)
    have rest: "calculateAll_loop_st tf pm_ref pa envs results_ref totals_ref ?h2 =
        Some (?h2[results_ref := ArrayObj (fst ?out), totals_ref := TotalsObj (snd ?out)])"
      using Cons.prems ne by (intro Cons.IH) simp_all
    have same: "?h2[results_ref := ArrayObj (fst ?out), totals_ref := TotalsObj (snd ?out)] =
        h[results_ref := ArrayObj (fst ?out), totals_ref := TotalsObj (snd ?out)]"
      using ne(1) by (rule list_update_twice)
    have pure: "calculateAll_loop tf pm pa (env # envs) xs t = ?out"
      using Some by (simp add: Let_def)
    show ?thesis
      by (simp only: step rest same pure)
  qed
qed

lemma calculateAll_st_run:
  assumes "state_ref < length h" "h ! state_ref = StateObj st"
  shows "calculateAll_st tf state_ref h =
     Some ((length h, Suc (length h)),
           h @ [ArrayObj (perEnv (calculateAll tf st)),
                TotalsObj (totals (calculateAll tf st)),
                MapObj (plansMap (vendor_plans st))])"
proof -
  let ?m = "plansMap (vendor_plans st)"
  let ?h3 = "h @ [ArrayObj [], TotalsObj zero_totals, MapObj ?m]"
  let ?out = "calculateAll_loop tf ?m (plan_assignment st) (environments st) [] zero_totals"
  have loop: "calculateAll_loop_st tf (Suc (Suc (length h))) (plan_assignment st)
        (environments st) (length h) (Suc (length h)) ?h3 =
      Some (?h3[length h := ArrayObj (fst ?out), Suc (length h) := TotalsObj (snd ?out)])"
    by (rule calculateAll_loop_st_run) (simp_all add: nth_append)
  have "(h @ [ArrayObj (fst ?out), TotalsObj zero_totals, MapObj ?m])
          [Suc (length h) := TotalsObj (snd ?out)] =
      h @ [ArrayObj (fst ?out), TotalsObj (snd ?out), MapObj ?m]"
    using list_update_length [of "h @ [ArrayObj (fst ?out)]" "TotalsObj zero_totals" "[MapObj ?m]"
        "TotalsObj (snd ?out)"]
    by simp
  then have upd:
    "?h3[length h := ArrayObj (fst ?out), Suc (length h) := TotalsObj (snd ?out)] =
      h @ [ArrayObj (fst ?out), TotalsObj (snd ?out), MapObj ?m]"
    by simp
  have out: "perEnv (calculateAll tf st) = fst ?out" "totals (calculateAll tf st) = snd ?out"
    by (simp_all add: calculateAll_def split: prod.splits)
  have "calculateAll_st tf state_ref h =
      (case calculateAll_loop_st tf (Suc (Suc (length h))) (plan_assignment st)
              (environments st) (length h) (Suc (length h)) ?h3 of
         None \<Rightarrow> None
       | Some h4 \<Rightarrow> Some ((length h, Suc (length h)), h4))"
    using assms by (simp add: calculateAll_st_def deref_def new_obj_def cong: option.case_cong)
  then show ?thesis
    by (simp only: loop upd out option.case)
qed

lemma read_results_appended:
  "read_results (h @ [ArrayObj xs, TotalsObj t, x] @ h') (length h, Suc (length h)) =
     Some \<lparr>perEnv = xs, totals = t\<rparr>"
  by (simp add: read_results_def deref_def nth_append)

text \<open>
  Claim C9. Let two references lead to state objects with the same environments, plans and
  assignment (one object or two). The first call returns, and leaves the heap as it was
  with three new objects after it: the array of results, the totals and the plan table.
  The second call, run on the heap that the first one left, returns as well and again only
  adds three objects. Behind the references that the two calls return there are the same
  results per environment and the same totals, those of \<open>calculateAll\<close>; the second call
  does not touch what the first one returned; and every object that was on the heap before
  the calls, the state objects among them, is as it was.
\<close>

theorem calculateAll_twice:
  assumes "s < length h" and "h ! s = StateObj st"
    and "s' < length h" and "h ! s' = StateObj st"
  shows "\<exists>r1 h1 r2 h2.
           calculateAll_st toFixed s h = Some (r1, h1)
         \<and> calculateAll_st toFixed s' h1 = Some (r2, h2)
         \<and> read_results h1 r1 = Some (calculateAll toFixed st)
         \<and> read_results h2 r2 = Some (calculateAll toFixed st)
         \<and> read_results h2 r1 = Some (calculateAll toFixed st)
         \<and> r1 \<noteq> r2
         \<and> take (length h) h1 = h \<and> length h1 = length h + 3
         \<and> take (length h) h2 = h \<and> length h2 = length h + 6"
proof -
  let ?R = "calculateAll toFixed st"
  let ?new = "[ArrayObj (perEnv ?R), TotalsObj (totals ?R), MapObj (plansMap (vendor_plans st))]"
  let ?h1 = "h @ ?new"
  let ?h2 = "?h1 @ ?new"
  have run1: "calculateAll_st toFixed s h = Some ((length h, Suc (length h)), ?h1)"
    using assms(1,2) by (rule calculateAll_st_run)
  have "s' < length ?h1" "?h1 ! s' = StateObj st"
    using assms(3,4) by (simp_all add: nth_append)
  then have run2: "calculateAll_st toFixed s' ?h1 = Some ((length ?h1, Suc (length ?h1)), ?h2)"
    by (rule calculateAll_st_run)
  have R: "\<lparr>perEnv = perEnv ?R, totals = totals ?R\<rparr> = ?R"
    by simp
  have a: "read_results ?h1 (length h, Suc (length h)) = Some ?R"
    using read_results_appended [of h "perEnv ?R" "totals ?R" _ "[]"] by (simp add: R)
  have b: "read_results ?h2 (length ?h1, Suc (length ?h1)) = Some ?R"
    using read_results_appended [of ?h1 "perEnv ?R" "totals ?R" _ "[]"] by (simp add: R)
  have c: "read_results ?h2 (length h, Suc (length h)) = Some ?R"
    using read_results_appended [of h "perEnv ?R" "totals ?R" _ ?new] by (simp add: R)
  show ?thesis
    using run1 run2 a b c by simp
qed

theorem calculateAll_twice_witness:
  "(0::nat) < length [StateObj DEFAULT_STATE]
   \<and> [StateObj DEFAULT_STATE] ! 0 = StateObj DEFAULT_STATE
   \<and> (\<exists>r1 h1 r2 h2.
         calculateAll_st toFixed_decimal 0 [StateObj DEFAULT_STATE] = Some (r1, h1)
       \<and> calculateAll_st toFixed_decimal 0 h1 = Some (r2, h2)
       \<and> read_results h1 r1 = Some (calculateAll toFixed_decimal DEFAULT_STATE)
       \<and> read_results h2 r2 = Some (calculateAll toFixed_decimal DEFAULT_STATE)
       \<and> read_results h2 r1 = Some (calculateAll toFixed_decimal DEFAULT_STATE)
       \<and> r1 \<noteq> r2
       \<and> take 1 h1 = [StateObj DEFAULT_STATE] \<and> length h1 = 4
       \<and> take 1 h2 = [StateObj DEFAULT_STATE] \<and> length h2 = 7)"
proof -
  have a: "(0::nat) < length [StateObj DEFAULT_STATE]"
    by simp
  have b: "[StateObj DEFAULT_STATE] ! 0 = StateObj DEFAULT_STATE"
    by simp
  show ?thesis
    using calculateAll_twice [OF a b a b, of toFixed_decimal] by simp
qed

end
